theory Spec2Isabelle
  imports Complex_Main "HOL-Library.Log_Nat"
begin

section \<open>Numbers\<close>

text \<open>
  A JavaScript \<^verbatim>\<open>number\<close> is a binary64 value: a finite one is the rational it
  denotes, and the sign of zero is left out (no operation of the handlers tells the two
  zeros apart). \<open>binary64\<close> rounds a rational to the nearest value of the format, ties
  to the even significand, with 53 bits above the exponent -1022 and the spacing of the
  subnormals below it; a result of magnitude \<open>2 ^ 1024\<close> or more is an infinity.
  \<open>binade x\<close> is the exponent \<open>e\<close> with \<open>2 ^ e \<le> \<bar>x\<bar> < 2 ^ (e + 1)\<close>.
\<close>

datatype number = Finite rat | PosInf | NegInf | NaN

definition binade :: "rat \<Rightarrow> int" where
  "binade x = (if 1 \<le> \<bar>x\<bar> then bitlen \<lfloor>\<bar>x\<bar>\<rfloor> - 1 else - bitlen (\<lceil>1 / \<bar>x\<bar>\<rceil> - 1))"

definition round_even :: "rat \<Rightarrow> int" where
  "round_even x =
     (let f = \<lfloor>x\<rfloor>; d = x - of_int f
      in if d < 1 / 2 then f else if 1 / 2 < d then f + 1 else if even f then f else f + 1)"

definition binary64 :: "rat \<Rightarrow> number" where
  "binary64 x =
     (if x = 0 then Finite 0
      else
        let e = max (binade x) (- 1022);
            u = 2 powi (e - 52);
            y = of_int (round_even (x / u)) * u
        in if 2 powi 1024 \<le> \<bar>y\<bar> then (if 0 < y then PosInf else NegInf) else Finite y)"

text \<open>The operators the handlers use: \<^verbatim>\<open>+\<close>, unary and binary \<^verbatim>\<open>-\<close>, \<^verbatim>\<open><\<close>, \<^verbatim>\<open><=\<close>, \<^verbatim>\<open>Math.floor\<close>.\<close>

fun js_add :: "number \<Rightarrow> number \<Rightarrow> number" where
  "js_add (Finite a) (Finite b) = binary64 (a + b)"
| "js_add NaN _ = NaN"
| "js_add _ NaN = NaN"
| "js_add PosInf NegInf = NaN"
| "js_add NegInf PosInf = NaN"
| "js_add PosInf _ = PosInf"
| "js_add _ PosInf = PosInf"
| "js_add NegInf _ = NegInf"
| "js_add _ NegInf = NegInf"

fun js_neg :: "number \<Rightarrow> number" where
  "js_neg (Finite a) = Finite (- a)"
| "js_neg PosInf = NegInf"
| "js_neg NegInf = PosInf"
| "js_neg NaN = NaN"

definition js_sub :: "number \<Rightarrow> number \<Rightarrow> number" where
  "js_sub x y = js_add x (js_neg y)"

fun js_lt :: "number \<Rightarrow> number \<Rightarrow> bool" where
  "js_lt (Finite a) (Finite b) = (a < b)"
| "js_lt NaN _ = False"
| "js_lt _ NaN = False"
| "js_lt _ NegInf = False"
| "js_lt NegInf _ = True"
| "js_lt PosInf _ = False"
| "js_lt _ PosInf = True"

definition js_le :: "number \<Rightarrow> number \<Rightarrow> bool" where
  "js_le x y = (x \<noteq> NaN \<and> y \<noteq> NaN \<and> \<not> js_lt y x)"

fun js_floor :: "number \<Rightarrow> number" where
  "js_floor (Finite a) = Finite (of_int \<lfloor>a\<rfloor>)"
| "js_floor x = x"

definition num :: "int \<Rightarrow> number" where
  "num i = Finite (of_int i)"

section \<open>Values\<close>

text \<open>
  The fund-movement handlers of \<^verbatim>\<open>AccountsController\<close> and the account repository,
  as pure functions over an explicit state. Amounts and balances are numbers; user
  identifiers and account numbers, which the code only compares, are integers. The
  \<open>body\<close> of a response is the value handed to \<^verbatim>\<open>res.json\<close>, so that the shape of a
  response (which key sits at which level) is part of the model.
\<close>

datatype json =
    JNull
  | JBool bool
  | JNum number
  | JStr string
  | JObj "(string \<times> json) list"

record response =
  status :: nat
  body :: json

text \<open>\<^verbatim>\<open>res.status(c).json(b)\<close> and \<^verbatim>\<open>res.json(b)\<close> (status 200).\<close>

definition status_json :: "nat \<Rightarrow> json \<Rightarrow> response" where
  "status_json c b = \<lparr>status = c, body = b\<rparr>"

definition res_json :: "json \<Rightarrow> response" where
  "res_json b = \<lparr>status = 200, body = b\<rparr>"

text \<open>
  \<^verbatim>\<open>ErrorFactory.getError\<close>: called with a message string, or with a thrown
  \<^verbatim>\<open>Error\<close> whose \<^verbatim>\<open>message\<close> replaces it; in both cases \<^verbatim>\<open>details\<close> is the
  message.
\<close>

definition getError :: "string \<Rightarrow> json" where
  "getError err = JObj [(''success'', JBool False), (''details'', JStr err)]"

definition is_success :: "response \<Rightarrow> bool" where
  "is_success r = (case body r of
      JObj ((k, v) # _) \<Rightarrow> k = ''success'' \<and> v = JBool True
    | _ \<Rightarrow> False)"

text \<open>
  What an asynchronous handler ends with: the response it sent, or an exception that
  no \<^verbatim>\<open>catch\<close> of the handler took, with which its promise is rejected and no
  response of the handler is sent.
\<close>

datatype reply = Responded response | Rejected

definition succeeded :: "reply \<Rightarrow> bool" where
  "succeeded y = (case y of Responded r \<Rightarrow> is_success r | Rejected \<Rightarrow> False)"

section \<open>Decimal rendering and parsing\<close>

text \<open>
  \<open>digits\<close> writes a natural number in decimal. \<open>toString\<close> is
  \<^verbatim>\<open>Number.prototype.toString\<close> where it gives plain decimal digits, on the integers
  below \<open>10 ^ 21\<close>, and on the values that are not finite; the other renderings (a
  fraction, an exponent) are not given by the model (\<open>None\<close>).
\<close>

definition digit_char :: "nat \<Rightarrow> char" where
  "digit_char d = char_of (48 + d)"

fun digits :: "nat \<Rightarrow> string" where
  "digits n = (if n < 10 then [digit_char n] else digits (n div 10) @ [digit_char (n mod 10)])"

declare digits.simps [simp del]

definition toString_int :: "int \<Rightarrow> string" where
  "toString_int i = (if i < 0 then ''-'' @ digits (nat (- i)) else digits (nat i))"

fun toString :: "number \<Rightarrow> string option" where
  "toString (Finite a) =
     (if of_int \<lfloor>a\<rfloor> = a \<and> \<bar>a\<bar> < 10 ^ 21 then Some (toString_int \<lfloor>a\<rfloor>) else None)"
| "toString PosInf = Some ''Infinity''"
| "toString NegInf = Some ''-Infinity''"
| "toString NaN = Some ''NaN''"

text \<open>
  \<^verbatim>\<open>parseInt\<close> with no radix: leading white space (of ASCII) is skipped, a sign
  is read, a prefix \<^verbatim>\<open>0x\<close> or \<^verbatim>\<open>0X\<close> selects radix 16 and radix 10 is used
  otherwise, and the longest run of digits of that radix is the value, rounded to a
  number; no digit gives \<^verbatim>\<open>NaN\<close>.
\<close>

definition is_space :: "char \<Rightarrow> bool" where
  "is_space c = ((of_char c :: nat) \<in> set [9, 10, 11, 12, 13, 32])"

definition digit_val :: "char \<Rightarrow> nat option" where
  "digit_val c =
     (let n = (of_char c :: nat)
      in if 48 \<le> n \<and> n \<le> 57 then Some (n - 48)
         else if 97 \<le> n \<and> n \<le> 122 then Some (n - 87)
         else if 65 \<le> n \<and> n \<le> 90 then Some (n - 55)
         else None)"

definition is_digit :: "nat \<Rightarrow> char \<Rightarrow> bool" where
  "is_digit radix c = (case digit_val c of None \<Rightarrow> False | Some d \<Rightarrow> d < radix)"

fun parse_digits :: "nat \<Rightarrow> nat \<Rightarrow> string \<Rightarrow> nat" where
  "parse_digits radix acc [] = acc"
| "parse_digits radix acc (c # cs) = (case digit_val c of
      None \<Rightarrow> acc
    | Some d \<Rightarrow> if d < radix then parse_digits radix (radix * acc + d) cs else acc)"

definition parseInt :: "string \<Rightarrow> number" where
  "parseInt s =
     (let s1 = dropWhile is_space s;
          (sign, s2) = (case s1 of
              c # cs \<Rightarrow> if c = CHR ''-'' then (- 1, cs) else if c = CHR ''+'' then (1, cs) else (1, s1)
            | [] \<Rightarrow> (1 :: int, s1));
          (radix, s3) = (if take 2 s2 = ''0x'' \<or> take 2 s2 = ''0X'' then (16, drop 2 s2) else (10, s2))
      in case s3 of
           [] \<Rightarrow> NaN
         | c # _ \<Rightarrow>
             if is_digit radix c then binary64 (of_int (sign * int (parse_digits radix 0 s3)))
             else NaN)"

section \<open>The account repository\<close>

record Account =
  owner :: int
  account_number :: int
  balance :: number
  transaction_pin :: string

record UpdateAccountDto =
  dto_balance :: number
  dto_owner :: int

text \<open>
  \<^verbatim>\<open>generateAccountNumber\<close>, with the finite number returned by \<^verbatim>\<open>Math.random()\<close>
  as its argument: \<^verbatim>\<open>Math.floor(r * 90000000) + 10000000\<close> in the arithmetic of
  numbers, rendered after the prefix \<^verbatim>\<open>"21"\<close> and parsed back.
\<close>

definition generateAccountNumber :: "rat \<Rightarrow> number option" where
  "generateAccountNumber r =
     (let randomNumber = js_add (js_floor (binary64 (r * 90000000))) (Finite 10000000)
      in case toString randomNumber of
           None \<Rightarrow> None
         | Some text \<Rightarrow> Some (parseInt (''21'' @ text)))"

text \<open>
  The table \<^verbatim>\<open>accounts\<close> is the list of its rows. \<^verbatim>\<open>find\<close> and
  \<^verbatim>\<open>findByOwnerId\<close> return the first row that matches (\<^verbatim>\<open>.first()\<close>);
  \<^verbatim>\<open>update\<close> sets the balance of every row \<^verbatim>\<open>where({ owner })\<close> and returns the
  number of rows it matched.
\<close>

definition find_account :: "Account list \<Rightarrow> int \<Rightarrow> Account option" where
  "find_account tbl accountNumber = List.find (\<lambda>a. account_number a = accountNumber) tbl"

definition findByOwnerId :: "Account list \<Rightarrow> int \<Rightarrow> Account option" where
  "findByOwnerId tbl ownerId = List.find (\<lambda>a. owner a = ownerId) tbl"

definition update_account :: "Account list \<Rightarrow> UpdateAccountDto \<Rightarrow> nat \<times> Account list" where
  "update_account tbl accountDto =
     (length (filter (\<lambda>a. owner a = dto_owner accountDto) tbl),
      map (\<lambda>a. if owner a = dto_owner accountDto then a\<lparr>balance := dto_balance accountDto\<rparr> else a) tbl)"

text \<open>
  \<^verbatim>\<open>db.transaction\<close>: the callback works on the table; when it throws, the table is
  left as it was before the transaction and the error reaches the caller's
  \<^verbatim>\<open>catch\<close>; otherwise the callback's writes are committed.
\<close>

definition transaction ::
  "(Account list \<Rightarrow> string + Account list) \<Rightarrow> Account list \<Rightarrow> string option \<times> Account list" where
  "transaction callback tbl = (case callback tbl of
      Inl err \<Rightarrow> (Some err, tbl)
    | Inr tbl' \<Rightarrow> (None, tbl'))"


section \<open>Requests and their validation\<close>

text \<open>
  An Express request as the handlers read it: \<^verbatim>\<open>req.userId\<close> (set by the
  authentication middleware), the header \<^verbatim>\<open>idempotency-key\<close> (absent: \<open>None\<close>) and
  \<^verbatim>\<open>req.body\<close>.
\<close>

record 'b request =
  userId :: int
  idempotencyKey :: "string option"
  req_body :: 'b

record DepositFundsDto =
  d_amount :: number

text \<open>
  The bodies that go through a Joi schema: every key is absent or holds a value of the
  type the schema names (a value of another type, or a key the schema does not know, is
  outside the model). The validated value is the DTO.
\<close>

record TransferBody =
  tb_source :: "int option"
  tb_amount :: "number option"
  tb_destination :: "int option"
  tb_transaction_pin :: "string option"

record CreateTransferDto =
  t_source :: int
  t_amount :: number
  t_destination :: int
  t_transaction_pin :: string

record WithdrawalBody =
  wb_source :: "int option"
  wb_amount :: "number option"
  wb_destination :: "int option"
  wb_transaction_pin :: "string option"
  wb_destinationBankName :: "string option"

record WithdrawalDto =
  w_source :: int
  w_amount :: number
  w_destination :: int
  w_transaction_pin :: string
  w_destinationBankName :: string

text \<open>
  Joi's rules as the schemas use them: \<^verbatim>\<open>Joi.number().required()\<close> wants a number
  that is finite and within the safe integers in magnitude (a fraction passes),
  \<^verbatim>\<open>Joi.string().required()\<close> a non-empty string, \<^verbatim>\<open>.min(4)\<close> at least four
  characters. Keys are checked in the order of the schema and the first error is the one
  reported (\<^verbatim>\<open>error.details[0].message\<close>).
\<close>

datatype joi_rule =
    any_required | number_base | number_infinity | number_unsafe | string_empty | string_min nat

definition joi_message :: "string \<Rightarrow> joi_rule \<Rightarrow> string" where
  "joi_message label rule = [CHR 0x22] @ label @ [CHR 0x22] @ (case rule of
      any_required \<Rightarrow> '' is required''
    | number_base \<Rightarrow> '' must be a number''
    | number_infinity \<Rightarrow> '' cannot be infinity''
    | number_unsafe \<Rightarrow> '' must be a safe number''
    | string_empty \<Rightarrow> '' is not allowed to be empty''
    | string_min n \<Rightarrow> '' length must be at least '' @ digits n @ '' characters long'')"

definition MAX_SAFE_INTEGER :: rat where
  "MAX_SAFE_INTEGER = 9007199254740991"

definition joi_number_required :: "string \<Rightarrow> number option \<Rightarrow> string + number" where
  "joi_number_required label v = (case v of
      None \<Rightarrow> Inl (joi_message label any_required)
    | Some PosInf \<Rightarrow> Inl (joi_message label number_infinity)
    | Some NegInf \<Rightarrow> Inl (joi_message label number_infinity)
    | Some NaN \<Rightarrow> Inl (joi_message label number_base)
    | Some (Finite a) \<Rightarrow>
        if a > MAX_SAFE_INTEGER \<or> a < - MAX_SAFE_INTEGER then Inl (joi_message label number_unsafe)
        else Inr (Finite a))"

text \<open>The same rule on a key that the model holds as an integer.\<close>

definition joi_integer_required :: "string \<Rightarrow> int option \<Rightarrow> string + int" where
  "joi_integer_required label v = (case v of
      None \<Rightarrow> Inl (joi_message label any_required)
    | Some n \<Rightarrow> (case joi_number_required label (Some (num n)) of
          Inl e \<Rightarrow> Inl e
        | Inr _ \<Rightarrow> Inr n))"

definition joi_string_required :: "string \<Rightarrow> nat \<Rightarrow> string option \<Rightarrow> string + string" where
  "joi_string_required label limit v = (case v of
      None \<Rightarrow> Inl (joi_message label any_required)
    | Some s \<Rightarrow>
        if s = [] then Inl (joi_message label string_empty)
        else if length s < limit then Inl (joi_message label (string_min limit))
        else Inr s)"

definition validateTransfer :: "TransferBody \<Rightarrow> string + CreateTransferDto" where
  "validateTransfer transfer =
     (case joi_integer_required ''source'' (tb_source transfer) of Inl e \<Rightarrow> Inl e | Inr src \<Rightarrow>
     (case joi_number_required ''amount'' (tb_amount transfer) of Inl e \<Rightarrow> Inl e | Inr amt \<Rightarrow>
     (case joi_integer_required ''destination'' (tb_destination transfer) of Inl e \<Rightarrow> Inl e | Inr dst \<Rightarrow>
     (case joi_string_required ''transaction_pin'' 4 (tb_transaction_pin transfer) of Inl e \<Rightarrow> Inl e | Inr pin \<Rightarrow>
      Inr \<lparr>t_source = src, t_amount = amt, t_destination = dst, t_transaction_pin = pin\<rparr>))))"

definition validateWithdrawal :: "WithdrawalBody \<Rightarrow> string + WithdrawalDto" where
  "validateWithdrawal withdrawal =
     (case joi_integer_required ''source'' (wb_source withdrawal) of Inl e \<Rightarrow> Inl e | Inr src \<Rightarrow>
     (case joi_number_required ''amount'' (wb_amount withdrawal) of Inl e \<Rightarrow> Inl e | Inr amt \<Rightarrow>
     (case joi_integer_required ''destination'' (wb_destination withdrawal) of Inl e \<Rightarrow> Inl e | Inr dst \<Rightarrow>
     (case joi_string_required ''transaction_pin'' 4 (wb_transaction_pin withdrawal) of Inl e \<Rightarrow> Inl e | Inr pin \<Rightarrow>
     (case joi_string_required ''destinationBankName'' 0 (wb_destinationBankName withdrawal) of Inl e \<Rightarrow> Inl e | Inr bank \<Rightarrow>
      Inr \<lparr>w_source = src, w_amount = amt, w_destination = dst, w_transaction_pin = pin,
           w_destinationBankName = bank\<rparr>)))))"

section \<open>The accounts controller\<close>

text \<open>
  The state the handlers work on: the table of accounts and the idempotency cache
  (\<^verbatim>\<open>NodeCache\<close>: key to value and time to live in seconds).
\<close>

type_synonym cache = "string \<rightharpoonup> json \<times> nat"

record state =
  accounts :: "Account list"
  customCache :: cache

text \<open>
  \<^verbatim>\<open>argon2.verify(digest, plain)\<close> of the library: the first argument is read as a
  hash in the PHC string format, which begins with \<^verbatim>\<open>$\<close>, and the call throws
  (\<open>None\<close>) when it cannot be read as one; otherwise the second argument is hashed with
  the parameters of the first and the two hashes are compared. What the library does
  with a first argument that begins with \<^verbatim>\<open>$\<close> is a parameter of the model.
\<close>

type_synonym verifier = "string \<Rightarrow> string \<Rightarrow> bool option"

definition argon2_verify :: "verifier \<Rightarrow> string \<Rightarrow> string \<Rightarrow> bool option" where
  "argon2_verify lib digest plain = (case digest of
      [] \<Rightarrow> None
    | c # _ \<Rightarrow> if c = CHR ''$'' then lib digest plain else None)"

definition cacheResponseIfKeyExists :: "cache \<Rightarrow> int \<Rightarrow> string option \<Rightarrow> json \<Rightarrow> cache" where
  "cacheResponseIfKeyExists cache uid key response = (case key of
      None \<Rightarrow> cache
    | Some k \<Rightarrow>
        if k = [] then cache
        else cache(''Bearer '' @ toString_int uid @ ''-'' @ k \<mapsto> (response, 21600)))"

text \<open>
  Each handler reads the table and checks its preconditions first; the transaction
  comes after. The two parts are separate functions, joined by the handler on one state:
  between them the source awaits, and another request may run. The handlers pass the
  pin of the request as the first argument of \<^verbatim>\<open>argon2.verify\<close> and the
  \<^verbatim>\<open>transaction_pin\<close> column of the account as the second; the call stands outside
  the \<^verbatim>\<open>try\<close>, so that an exception of it ends the handler.
\<close>

definition deposit_read :: "Account list \<Rightarrow> DepositFundsDto request \<Rightarrow> response + UpdateAccountDto" where
  "deposit_read tbl req =
     (let amount = d_amount (req_body req) in
      if js_le amount (Finite 0) then Inl (status_json 400 (getError ''Invalid amount''))
      else (case findByOwnerId tbl (userId req) of
          None \<Rightarrow> Inl (status_json 404 (getError (''Bank account doesn'' @ [CHR 0x27] @ ''t exist'')))
        | Some account \<Rightarrow> Inr \<lparr>dto_balance = js_add (balance account) amount, dto_owner = userId req\<rparr>))"

definition deposit_write :: "state \<Rightarrow> DepositFundsDto request \<Rightarrow> UpdateAccountDto \<Rightarrow> response \<times> state" where
  "deposit_write st req updateDto =
     (case transaction (\<lambda>trx.
              let (depositResult, trx') = update_account trx updateDto
              in if depositResult \<noteq> 1 then Inl ''Deposit failed'' else Inr trx') (accounts st) of
        (Some error, tbl) \<Rightarrow> (status_json 400 (getError error), st\<lparr>accounts := tbl\<rparr>)
      | (None, tbl) \<Rightarrow>
          let response = JObj [(''success'', JBool True),
                (''details'', JObj [(''balance'', JNum (dto_balance updateDto)),
                                    (''owner'', JNum (num (dto_owner updateDto)))])]
          in (res_json response,
              \<lparr>accounts = tbl,
               customCache = cacheResponseIfKeyExists (customCache st) (userId req) (idempotencyKey req) response\<rparr>))"

definition deposit :: "state \<Rightarrow> DepositFundsDto request \<Rightarrow> response \<times> state" where
  "deposit st req = (case deposit_read (accounts st) req of
      Inl r \<Rightarrow> (r, st)
    | Inr updateDto \<Rightarrow> deposit_write st req updateDto)"

definition transfer_checks ::
  "verifier \<Rightarrow> Account list \<Rightarrow> TransferBody request \<Rightarrow> reply + (Account \<times> Account \<times> CreateTransferDto)" where
  "transfer_checks lib tbl req = (case validateTransfer (req_body req) of
      Inl message \<Rightarrow> Inl (Responded (status_json 400 (getError message)))
    | Inr v \<Rightarrow>
        if t_source v = t_destination v
        then Inl (Responded (status_json 400 (getError ''Sender and recipient account cannot be the same'')))
        else
          let senderAccount = find_account tbl (t_source v);
              recipientAccount = find_account tbl (t_destination v)
          in if js_le (t_amount v) (Finite 0)
             then Inl (Responded (status_json 400 (getError ''Invalid amount'')))
             else (case (senderAccount, recipientAccount) of
                 (Some sender, Some recipient) \<Rightarrow>
                   if owner sender \<noteq> userId req
                   then Inl (Responded (status_json 400
                          (getError ''You are not allowed to transfer from this account'')))
                   else if js_lt (balance sender) (t_amount v)
                   then Inl (Responded (status_json 400
                          (getError ''Insufficient funds in the sender account.'')))
                   else (case argon2_verify lib (t_transaction_pin v) (transaction_pin sender) of
                       None \<Rightarrow> Inl Rejected
                     | Some isValid \<Rightarrow>
                         if \<not> isValid
                         then Inl (Responded (status_json 400 (getError ''Invalid transaction pin'')))
                         else Inr (sender, recipient, v))
               | _ \<Rightarrow> Inl (Responded (status_json 404
                          (getError ''One or both bank accounts do not exist.'')))))"

definition transfer_commit ::
  "state \<Rightarrow> TransferBody request \<Rightarrow> Account \<Rightarrow> Account \<Rightarrow> CreateTransferDto \<Rightarrow> reply \<times> state" where
  "transfer_commit st req senderAccount recipientAccount v =
     (case transaction (\<lambda>trx.
              let senderUpdateDto = \<lparr>dto_balance = js_sub (balance senderAccount) (t_amount v),
                                     dto_owner = owner senderAccount\<rparr>;
                  recipientUpdateDto = \<lparr>dto_balance = js_add (balance recipientAccount) (t_amount v),
                                        dto_owner = owner recipientAccount\<rparr>;
                  (senderUpdateResult, trx1) = update_account trx senderUpdateDto;
                  (recipientUpdateResult, trx2) = update_account trx1 recipientUpdateDto
              in if senderUpdateResult \<noteq> 1 \<or> recipientUpdateResult \<noteq> 1
                 then Inl ''Deposit failed'' else Inr trx2) (accounts st) of
        (Some error, tbl) \<Rightarrow> (Responded (status_json 400 (getError error)), st\<lparr>accounts := tbl\<rparr>)
      | (None, tbl) \<Rightarrow>
          let response = JObj [(''success'', JBool True), (''destination'', JNum (num (t_destination v))),
                (''source'', JNum (num (t_source v))), (''amount'', JNum (t_amount v))]
          in (Responded (res_json response),
              \<lparr>accounts = tbl,
               customCache = cacheResponseIfKeyExists (customCache st) (userId req) (idempotencyKey req) response\<rparr>))"

definition transfer :: "verifier \<Rightarrow> state \<Rightarrow> TransferBody request \<Rightarrow> reply \<times> state" where
  "transfer lib st req = (case transfer_checks lib (accounts st) req of
      Inl y \<Rightarrow> (y, st)
    | Inr (senderAccount, recipientAccount, v) \<Rightarrow> transfer_commit st req senderAccount recipientAccount v)"

definition withdraw_checks ::
  "verifier \<Rightarrow> Account list \<Rightarrow> WithdrawalBody request \<Rightarrow> reply + (Account \<times> WithdrawalDto)" where
  "withdraw_checks lib tbl req = (case validateWithdrawal (req_body req) of
      Inl message \<Rightarrow> Inl (Responded (status_json 400 (getError message)))
    | Inr v \<Rightarrow> (case find_account tbl (w_source v) of
          None \<Rightarrow> Inl (Responded (status_json 404 (getError ''Source Bank account do not exist.'')))
        | Some sourceAccount \<Rightarrow>
            if js_lt (balance sourceAccount) (w_amount v)
            then Inl (Responded (status_json 400 (getError ''Insufficient funds in the sender account.'')))
            else (case argon2_verify lib (w_transaction_pin v) (transaction_pin sourceAccount) of
                None \<Rightarrow> Inl Rejected
              | Some isValid \<Rightarrow>
                  if \<not> isValid
                  then Inl (Responded (status_json 400 (getError ''Invalid transaction pin'')))
                  else Inr (sourceAccount, v))))"

definition withdraw_commit ::
  "state \<Rightarrow> WithdrawalBody request \<Rightarrow> Account \<Rightarrow> WithdrawalDto \<Rightarrow> reply \<times> state" where
  "withdraw_commit st req sourceAccount v =
     (case transaction (\<lambda>trx.
              let updateDto = \<lparr>dto_balance = js_sub (balance sourceAccount) (w_amount v),
                               dto_owner = owner sourceAccount\<rparr>;
                  (withdrawalResult, trx') = update_account trx updateDto
              in if withdrawalResult \<noteq> 1 then Inl ''Withdrawal failed'' else Inr trx') (accounts st) of
        (Some error, tbl) \<Rightarrow> (Responded (status_json 400 (getError error)), st\<lparr>accounts := tbl\<rparr>)
      | (None, tbl) \<Rightarrow>
          let response = JObj [(''success'', JBool True), (''destination'', JNum (num (w_destination v))),
                (''source'', JNum (num (w_source v))), (''amount'', JNum (w_amount v)),
                (''destinationBankName'', JStr (w_destinationBankName v))]
          in (Responded (res_json response),
              \<lparr>accounts = tbl,
               customCache = cacheResponseIfKeyExists (customCache st) (userId req) (idempotencyKey req) response\<rparr>))"

definition withdraw :: "verifier \<Rightarrow> state \<Rightarrow> WithdrawalBody request \<Rightarrow> reply \<times> state" where
  "withdraw lib st req = (case withdraw_checks lib (accounts st) req of
      Inl y \<Rightarrow> (y, st)
    | Inr (sourceAccount, v) \<Rightarrow> withdraw_commit st req sourceAccount v)"

section \<open>Sequences of operations\<close>

text \<open>
  The three routes, and requests handled one after the other, each on the state the
  previous one left.
\<close>

datatype operation =
    Deposit "DepositFundsDto request"
  | Transfer "TransferBody request"
  | Withdraw "WithdrawalBody request"



text \<open>
  The change of balance an operation asks for on a row, as a rational: a deposit
  credits the row of the caller, a withdrawal debits the row of the source number, a
  transfer debits the source and credits the destination.
\<close>

definition finite_part :: "number \<Rightarrow> rat" where
  "finite_part x = (case x of Finite a \<Rightarrow> a | _ \<Rightarrow> 0)"





text \<open>
  A run in which the arithmetic of numbers is exact: balances and amounts are integers,
  and the magnitude of every balance plus the magnitudes of all the amounts of the run
  stays within the safe integers.
\<close>

definition whole :: "number \<Rightarrow> bool" where
  "whole x = (case x of Finite a \<Rightarrow> of_int \<lfloor>a\<rfloor> = a | _ \<Rightarrow> False)"

definition magnitude :: "number \<Rightarrow> rat" where
  "magnitude x = \<bar>finite_part x\<bar>"






section \<open>Sample data\<close>

text \<open>
  A stand-in for the hashing of the library, in which the hash of a text is the text
  behind a fixed prefix in the PHC style; two accounts of two users, whose stored pins
  are the hashes of 1234 and 9999; tables built from them; and the number nearest to one
  third.
\<close>

definition sample_argon2 :: verifier where
  "sample_argon2 digest plain = Some (digest = ''$argon2id$'' @ plain)"

definition acct_A :: Account where
  "acct_A = \<lparr>owner = 1, account_number = 2110000001, balance = Finite 100,
             transaction_pin = ''$argon2id$1234''\<rparr>"

definition acct_B :: Account where
  "acct_B = \<lparr>owner = 2, account_number = 2110000002, balance = Finite 50,
             transaction_pin = ''$argon2id$9999''\<rparr>"

definition ledger :: state where
  "ledger = \<lparr>accounts = [acct_A, acct_B], customCache = Map.empty\<rparr>"

definition empty_ledger :: state where
  "empty_ledger = \<lparr>accounts = [acct_A\<lparr>balance := Finite 0\<rparr>], customCache = Map.empty\<rparr>"

definition large_ledger :: state where
  "large_ledger = \<lparr>accounts = [acct_A\<lparr>balance := Finite 9007199254740992\<rparr>], customCache = Map.empty\<rparr>"

definition deposit_request :: "int \<Rightarrow> string option \<Rightarrow> number \<Rightarrow> DepositFundsDto request" where
  "deposit_request uid key amount = \<lparr>userId = uid, idempotencyKey = key, req_body = \<lparr>d_amount = amount\<rparr>\<rparr>"

definition transfer_request :: "int \<Rightarrow> int \<Rightarrow> int \<Rightarrow> number \<Rightarrow> string \<Rightarrow> TransferBody request" where
  "transfer_request uid src dst amount pin =
     \<lparr>userId = uid, idempotencyKey = None,
      req_body = \<lparr>tb_source = Some src, tb_amount = Some amount, tb_destination = Some dst,
                  tb_transaction_pin = Some pin\<rparr>\<rparr>"

definition withdraw_request :: "int \<Rightarrow> int \<Rightarrow> number \<Rightarrow> string \<Rightarrow> WithdrawalBody request" where
  "withdraw_request uid src amount pin =
     \<lparr>userId = uid, idempotencyKey = None,
      req_body = \<lparr>wb_source = Some src, wb_amount = Some amount, wb_destination = Some 3050000009,
                  wb_transaction_pin = Some pin, wb_destinationBankName = Some ''Other Bank''\<rparr>\<rparr>"

text \<open>The hash, in the stand-in, of the pin stored with the first account.\<close>

definition digest_of_stored :: string where
  "digest_of_stored = ''$argon2id$$argon2id$1234''"


definition third :: rat where
  "third = 6004799503160661 / 18014398509481984"

section \<open>Rounding\<close>

lemma binade_bounds:
  assumes "x \<noteq> 0"
  shows "2 powi binade x \<le> \<bar>x\<bar>" and "\<bar>x\<bar> < 2 powi (binade x + 1)"
proof -
  show "2 powi binade x \<le> \<bar>x\<bar>"
  proof (cases "1 \<le> \<bar>x\<bar>")
    case True
    let ?n = "\<lfloor>\<bar>x\<bar>\<rfloor>"
    have n: "0 < ?n" using True by linarith
    have b: "1 \<le> bitlen ?n" using n by (simp add: bitlen_alt_def)
    have "2 ^ nat (bitlen ?n - 1) \<le> ?n" using bitlen_bounds [OF n] by simp
    then have "(of_int (2 ^ nat (bitlen ?n - 1)) :: rat) \<le> of_int ?n"
      by (simp only: of_int_le_iff)
    also have "\<dots> \<le> \<bar>x\<bar>" by simp
    finally show ?thesis using True b by (simp add: binade_def power_int_def)
  next
    case False
    let ?y = "1 / \<bar>x\<bar>"
    let ?c = "\<lceil>?y\<rceil>"
    have x: "0 < \<bar>x\<bar>" "\<bar>x\<bar> < 1" using assms False by simp_all
    then have y: "1 < ?y" by simp
    then have c: "0 < ?c - 1" by linarith
    let ?k = "bitlen (?c - 1)"
    have k: "1 \<le> ?k" using c by (simp add: bitlen_alt_def)
    have "?c - 1 < 2 ^ nat ?k" using bitlen_bounds [OF c] by simp
    then have "?c \<le> 2 ^ nat ?k" by simp
    then have "(of_int ?c :: rat) \<le> of_int (2 ^ nat ?k)" by (simp only: of_int_le_iff)
    then have "(of_int ?c :: rat) \<le> 2 ^ nat ?k" by simp
    with le_of_int_ceiling [of ?y] have "?y \<le> 2 ^ nat ?k" by (rule order_trans)
    then have "1 / 2 ^ nat ?k \<le> \<bar>x\<bar>"
      using x by (simp add: field_simps)
    then show ?thesis using False k
      by (simp add: binade_def power_int_def field_simps)
  qed
  show "\<bar>x\<bar> < 2 powi (binade x + 1)"
  proof (cases "1 \<le> \<bar>x\<bar>")
    case True
    let ?n = "\<lfloor>\<bar>x\<bar>\<rfloor>"
    have n: "0 < ?n" using True by linarith
    have b: "1 \<le> bitlen ?n" using n by (simp add: bitlen_alt_def)
    have "?n < 2 ^ nat (bitlen ?n)" using bitlen_bounds [OF n] by simp
    then have "?n + 1 \<le> 2 ^ nat (bitlen ?n)" by simp
    then have "(of_int (?n + 1) :: rat) \<le> of_int (2 ^ nat (bitlen ?n))"
      by (simp only: of_int_le_iff)
    moreover have "\<bar>x\<bar> < of_int (?n + 1)" by linarith
    ultimately have "\<bar>x\<bar> < 2 ^ nat (bitlen ?n)" by simp
    then show ?thesis using True b by (simp add: binade_def power_int_def)
  next
    case False
    let ?y = "1 / \<bar>x\<bar>"
    let ?c = "\<lceil>?y\<rceil>"
    have x: "0 < \<bar>x\<bar>" "\<bar>x\<bar> < 1" using assms False by simp_all
    then have y: "1 < ?y" by simp
    then have c: "0 < ?c - 1" by linarith
    let ?k = "bitlen (?c - 1)"
    have k: "1 \<le> ?k" using c by (simp add: bitlen_alt_def)
    have "2 ^ nat (?k - 1) \<le> ?c - 1" using bitlen_bounds [OF c] by simp
    then have "(of_int (2 ^ nat (?k - 1)) :: rat) \<le> of_int (?c - 1)"
      by (simp only: of_int_le_iff)
    moreover have "of_int (?c - 1) < ?y" by linarith
    ultimately have "2 ^ nat (?k - 1) < ?y" by simp
    then have "\<bar>x\<bar> < 1 / 2 ^ nat (?k - 1)"
      using x by (simp add: field_simps)
    moreover have "- ?k + 1 \<le> 0" using k by simp
    ultimately show ?thesis using False k
      by (simp add: binade_def power_int_def field_simps) 
  qed
qed

lemma binade_le:
  assumes "x \<noteq> 0" and "\<bar>x\<bar> < 2 powi (e + 1)"
  shows "binade x \<le> e"
proof (rule ccontr)
  assume "\<not> binade x \<le> e"
  then have "e + 1 \<le> binade x" by simp
  then have "(2::rat) powi (e + 1) \<le> 2 powi binade x"
    by (intro power_int_increasing) simp_all
  also have "\<dots> \<le> \<bar>x\<bar>" using binade_bounds(1) [OF assms(1)] .
  finally show False using assms(2) by simp
qed

lemma binade_ge:
  assumes "x \<noteq> 0" and "2 powi e \<le> \<bar>x\<bar>"
  shows "e \<le> binade x"
proof (rule ccontr)
  assume "\<not> e \<le> binade x"
  then have "binade x + 1 \<le> e" by simp
  then have "(2::rat) powi (binade x + 1) \<le> 2 powi e"
    by (intro power_int_increasing) simp_all
  also note assms(2)
  finally show False using binade_bounds(2) [OF assms(1)] by simp
qed

lemma round_even_error: "\<bar>of_int (round_even t) - t\<bar> \<le> 1 / 2"
proof -
  have "of_int \<lfloor>t\<rfloor> \<le> t" "t < of_int \<lfloor>t\<rfloor> + 1" by linarith+
  then show ?thesis
    by (auto simp add: round_even_def Let_def abs_le_iff)
qed

lemma round_even_of_int: "round_even (of_int n) = n"
  by (simp add: round_even_def)

lemma round_even_nonneg: "0 \<le> t \<Longrightarrow> 0 \<le> round_even t"
  by (auto simp add: round_even_def Let_def)

lemma binary64_exact:
  assumes "x \<noteq> 0" and "x / 2 powi (max (binade x) (- 1022) - 52) = of_int m"
    and "\<bar>x\<bar> < 2 powi 1024"
  shows "binary64 x = Finite x"
proof -
  let ?u = "(2::rat) powi (max (binade x) (- 1022) - 52)"
  have u: "?u \<noteq> 0" by simp
  have "round_even (x / ?u) = m"
    by (simp only: assms(2) round_even_of_int)
  moreover have "of_int m * ?u = x"
    using assms(2) u by (simp add: nonzero_divide_eq_eq)
  ultimately have "of_int (round_even (x / ?u)) * ?u = x" by simp
  then show ?thesis
    using assms(1,3) by (simp add: binary64_def Let_def)
qed

lemma binary64_of_int:
  assumes "\<bar>n\<bar> < 2 ^ 53"
  shows "binary64 (of_int n) = Finite (of_int n)"
proof (cases "n = 0")
  case True
  then show ?thesis by (simp add: binary64_def)
next
  case False
  let ?x = "of_int n :: rat"
  have x: "?x \<noteq> 0" using False by simp
  have "1 \<le> \<bar>n\<bar>" using False by simp
  then have "(of_int 1 :: rat) \<le> of_int \<bar>n\<bar>" by (simp only: of_int_le_iff)
  then have "(1::rat) \<le> \<bar>?x\<bar>" by simp
  then have lo: "0 \<le> binade ?x" using binade_ge [OF x, of 0] by simp
  have "(of_int \<bar>n\<bar> :: rat) < of_int (2 ^ 53)" using assms by (simp only: of_int_less_iff)
  then have "\<bar>?x\<bar> < 2 ^ 53" by simp
  then have "\<bar>?x\<bar> < 2 powi (52 + 1)" by (simp add: power_int_def)
  then have hi: "binade ?x \<le> 52" by (rule binade_le [OF x])
  let ?e = "binade ?x"
  have e: "max ?e (- 1022) = ?e" using lo by simp
  have "?x / 2 powi (?e - 52) = ?x * 2 powi (52 - ?e)"
    by (simp add: power_int_diff field_simps)
  also have "\<dots> = ?x * 2 ^ nat (52 - ?e)"
    using hi by (simp add: power_int_def)
  also have "\<dots> = of_int (n * 2 ^ nat (52 - ?e))" by simp
  finally have m: "?x / 2 powi (max ?e (- 1022) - 52) = of_int (n * 2 ^ nat (52 - ?e))"
    by (simp only: e)
  have "\<bar>?x\<bar> < 2 powi 1024"
    using \<open>\<bar>?x\<bar> < 2 ^ 53\<close> by (simp add: power_int_def) 
  from binary64_exact [OF x m this] show ?thesis .
qed

lemma binary64_near:
  assumes "0 < x" and "x < 2 powi 1023"
  shows "\<exists>y. binary64 x = Finite y \<and> 0 \<le> y
           \<and> \<bar>y - x\<bar> \<le> 2 powi (max (binade x) (- 1022) - 53)"
proof -
  let ?e = "max (binade x) (- 1022)"
  let ?u = "(2::rat) powi (?e - 52)"
  let ?m = "round_even (x / ?u)"
  let ?y = "of_int ?m * ?u"
  have u: "0 < ?u" by simp
  have x0: "x \<noteq> 0" using assms(1) by simp
  have "\<bar>of_int ?m - x / ?u\<bar> \<le> 1 / 2" by (rule round_even_error)
  then have "\<bar>of_int ?m - x / ?u\<bar> * ?u \<le> 1 / 2 * ?u"
    using u by (intro mult_right_mono) simp_all
  moreover have "\<bar>of_int ?m - x / ?u\<bar> * ?u = \<bar>?y - x\<bar>"
    using u by (simp add: abs_mult_pos [symmetric] field_simps del: abs_mult_pos)
  moreover have "1 / 2 * ?u = 2 powi (?e - 53)"
    by (simp add: power_int_diff)
  ultimately have err: "\<bar>?y - x\<bar> \<le> 2 powi (?e - 53)" by simp
  have "0 \<le> ?m" using assms(1) u by (intro round_even_nonneg) simp
  then have y0: "0 \<le> ?y" using u by simp
  have "binade x \<le> 1022" using assms binade_le [OF x0, of 1022] by simp
  then have "?e \<le> 1022" by simp
  then have "(2::rat) powi (?e - 53) \<le> 2 powi 1023"
    by (intro power_int_increasing) simp_all
  then have "?y \<le> x + 2 powi 1023" using err by (simp add: abs_le_iff)
  then have "?y < 2 powi 1023 + 2 powi 1023" using assms(2) by simp
  also have "\<dots> = 2 powi 1024" by (simp add: power_int_def)
  finally have "\<bar>?y\<bar> < 2 powi 1024" using y0 by simp
  then have "binary64 x = Finite ?y"
    using x0 by (simp add: binary64_def Let_def)
  with y0 err show ?thesis by blast
qed

lemma double_below_one:
  assumes "0 \<le> r" and "r < 1" and "binary64 r = Finite r"
  shows "r \<le> 1 - 1 / 2 ^ 53"
proof (cases "r < 1 / 2")
  case True
  then show ?thesis by simp
next
  case False
  then have r: "r \<noteq> 0" "1 / 2 \<le> \<bar>r\<bar>" "\<bar>r\<bar> < 1" using assms by simp_all
  have "binade r \<le> - 1" using binade_le [OF r(1), of "- 1"] r(3) by simp
  moreover have "- 1 \<le> binade r" using binade_ge [OF r(1), of "- 1"] r(2) by (simp add: power_int_def)
  ultimately have e: "max (binade r) (- 1022) = - 1" by simp
  let ?m = "round_even (r / 2 powi (- 53))"
  let ?y = "of_int ?m * (2::rat) powi (- 53)"
  have "binary64 r = (if 2 powi 1024 \<le> \<bar>?y\<bar> then (if 0 < ?y then PosInf else NegInf) else Finite ?y)"
    using r(1) by (simp add: binary64_def Let_def e)
  with assms(3) have "?y = r" by (simp split: if_splits)
  then have eq: "r = of_int ?m / 2 ^ 53" by (simp add: power_int_def field_simps)
  with assms(2) have "(of_int ?m :: rat) < of_int (2 ^ 53)" by (simp add: field_simps)
  then have "?m < 2 ^ 53" by (simp only: of_int_less_iff)
  then have "?m \<le> 2 ^ 53 - 1" by simp
  then have "(of_int ?m :: rat) \<le> of_int (2 ^ 53 - 1)" by (simp only: of_int_le_iff)
  then have "(of_int ?m :: rat) / 2 ^ 53 \<le> (2 ^ 53 - 1) / 2 ^ 53"
    by (intro divide_right_mono) simp_all
  then show ?thesis by (subst eq) (simp add: field_simps)
qed

lemma random_scaled:
  assumes "0 \<le> r" and "r < 1" and "binary64 r = Finite r"
  shows "\<exists>y. binary64 (r * 90000000) = Finite y \<and> 0 \<le> y \<and> y < 90000000"
proof (cases "r = 0")
  case True
  then show ?thesis by (simp add: binary64_def)
next
  case False
  let ?x = "r * 90000000"
  have x: "0 < ?x" using False assms(1) by simp
  have xb: "?x \<le> (1 - 1 / 2 ^ 53) * 90000000"
    using double_below_one [OF assms] by (intro mult_right_mono) simp_all
  have x27: "\<bar>?x\<bar> < 2 powi (26 + 1)"
    using assms(1,2) by (simp add: power_int_def)
  have "?x < 2 powi 1023"
  proof -
    have "?x < 2 powi 27" using x27 x by simp
    also have "(2::rat) powi 27 \<le> 2 powi 1023" by (intro power_int_increasing) simp_all
    finally show ?thesis .
  qed
  from binary64_near [OF x this] obtain y where y: "binary64 ?x = Finite y" "0 \<le> y"
    and err: "\<bar>y - ?x\<bar> \<le> 2 powi (max (binade ?x) (- 1022) - 53)"
    by blast
  have "binade ?x \<le> 26" using x x27 by (intro binade_le) simp_all
  then have "max (binade ?x) (- 1022) - 53 \<le> - 27" by simp
  then have "(2::rat) powi (max (binade ?x) (- 1022) - 53) \<le> 2 powi (- 27)"
    by (intro power_int_increasing) simp_all
  with err have "y \<le> ?x + 2 powi (- 27)" by (simp add: abs_le_iff)
  with xb have "y \<le> (1 - 1 / 2 ^ 53) * 90000000 + 2 powi (- 27)" by simp
  also have "\<dots> < 90000000" by (simp add: power_int_def power_divide)
  finally have "y < 90000000" .
  with y show ?thesis by blast
qed

lemma js_add_whole:
  assumes "whole x" and "whole y" and "magnitude x + magnitude y \<le> MAX_SAFE_INTEGER"
  shows "js_add x y = Finite (finite_part x + finite_part y)" and "whole (js_add x y)"
proof -
  from assms(1) obtain a where a: "x = Finite (of_int a)"
    by (cases x) (auto simp add: whole_def intro: sym)
  from assms(2) obtain b where b: "y = Finite (of_int b)"
    by (cases y) (auto simp add: whole_def intro: sym)
  have "\<bar>of_int (a + b) :: rat\<bar> \<le> \<bar>of_int a\<bar> + \<bar>of_int b\<bar>" by simp
  also have "\<dots> \<le> 9007199254740991"
    using assms(3) by (simp add: a b magnitude_def finite_part_def MAX_SAFE_INTEGER_def)
  finally have "(of_int \<bar>a + b\<bar> :: rat) \<le> of_int 9007199254740991" by simp
  then have "\<bar>a + b\<bar> \<le> 9007199254740991" by (simp only: of_int_le_iff)
  then have "\<bar>a + b\<bar> < 2 ^ 53" by simp
  from binary64_of_int [OF this]
  have r: "js_add x y = Finite (of_int (a + b))" by (simp add: a b)
  then show "js_add x y = Finite (finite_part x + finite_part y)"
    by (simp add: a b finite_part_def)
  from r show "whole (js_add x y)" by (simp add: whole_def)
qed


lemma binary64_third: "binary64 third = Finite third"
  by code_simp

lemma binary64_third_scaled: "binary64 (third * 90000000) = Finite 30000000"
  by code_simp

section \<open>Account numbers\<close>

lemma digit_val_digit_char: "d < 10 \<Longrightarrow> digit_val (digit_char d) = Some d"
  by (simp add: digit_val_def digit_char_def Let_def)

lemma is_digit_digit_char: "d < 10 \<Longrightarrow> is_digit 10 (digit_char d)"
  by (simp add: is_digit_def digit_val_digit_char)

lemma parse_digits_append:
  "\<forall>c \<in> set xs. is_digit radix c \<Longrightarrow>
   parse_digits radix acc (xs @ ys) = parse_digits radix (parse_digits radix acc xs) ys"
  by (induction xs arbitrary: acc) (auto simp add: is_digit_def split: option.splits)

lemma digits_are_digits: "\<forall>c \<in> set (digits n). is_digit 10 c"
proof (induction n rule: digits.induct)
  case (1 n)
  show ?case
  proof (cases "n < 10")
    case True
    then show ?thesis by (subst digits.simps) (simp add: is_digit_digit_char)
  next
    case False
    with 1 show ?thesis by (subst digits.simps) (simp add: is_digit_digit_char)
  qed
qed

lemma digits_nonempty: "digits n \<noteq> []"
  by (subst digits.simps) simp

lemma parse_digits_digits:
  "parse_digits 10 acc (digits n) = acc * 10 ^ length (digits n) + n"
proof (induction n arbitrary: acc rule: digits.induct)
  case (1 n)
  show ?case
  proof (cases "n < 10")
    case True
    then show ?thesis
      by (subst (1 2) digits.simps) (simp add: digit_val_digit_char)
  next
    case False
    have "parse_digits 10 acc (digits n) =
          parse_digits 10 (parse_digits 10 acc (digits (n div 10))) [digit_char (n mod 10)]"
      using False by (subst digits.simps) (simp add: parse_digits_append digits_are_digits)
    also have "\<dots> = 10 * (acc * 10 ^ length (digits (n div 10)) + n div 10) + n mod 10"
      using 1 [OF False] by (simp add: digit_val_digit_char)
    also have "\<dots> = acc * 10 ^ length (digits n) + n"
      using False by (subst (2) digits.simps) (simp add: algebra_simps)
    finally show ?thesis .
  qed
qed

lemma length_digits: "10 ^ k \<le> n \<Longrightarrow> n < 10 ^ Suc k \<Longrightarrow> length (digits n) = Suc k"
proof (induction k arbitrary: n)
  case 0
  then show ?case by (subst digits.simps) simp
next
  case (Suc k)
  from Suc.prems have ge: "10 \<le> n"
    by (metis le_trans one_le_numeral power_Suc0_right power_increasing Suc_le_mono le0)
  from Suc.prems have "10 ^ k \<le> n div 10" "n div 10 < 10 ^ Suc k"
    by (simp_all add: less_mult_imp_div_less mult.commute div_le_mono2 le_div_geq
        Suc_le_eq div_greater_zero_iff less_eq_div_iff_mult_less_eq)
  then have "length (digits (n div 10)) = Suc k" by (rule Suc.IH)
  with ge show ?case by (subst digits.simps) simp
qed

lemma parseInt_prefix_digits:
  "parseInt (''21'' @ digits n) = binary64 (of_int (int (21 * 10 ^ length (digits n) + n)))"
proof -
  have "parse_digits 10 0 (''21'' @ digits n) = parse_digits 10 21 (digits n)"
    by (simp add: digit_val_def Let_def)
  then have p: "parse_digits 10 0 (CHR ''2'' # CHR ''1'' # digits n) = 21 * 10 ^ length (digits n) + n"
    by (simp add: parse_digits_digits)
  have "dropWhile is_space (CHR ''2'' # CHR ''1'' # digits n) = CHR ''2'' # CHR ''1'' # digits n"
    by (simp add: is_space_def)
  then show ?thesis
    by (simp add: parseInt_def Let_def is_digit_def digit_val_def p del: parse_digits.simps)
qed

text \<open>
  C9. For every value \<open>r\<close> of the random source, a number with \<open>0 \<le> r < 1\<close>, the product
  \<open>r * 90000000\<close> rounds to a number \<open>y\<close> below 90000000, and
  \<open>generateAccountNumber\<close> returns the number \<open>2110000000 + \<lfloor>y\<rfloor>\<close>: the digits 21
  followed by the eight digits of \<open>10000000 + \<lfloor>y\<rfloor>\<close>, an integer between 2110000000 and
  2199999999.
\<close>

theorem generateAccountNumber_exact:
  assumes "0 \<le> r" and "r < 1" and "binary64 r = Finite r"
  shows "\<exists>y. binary64 (r * 90000000) = Finite y \<and> 0 \<le> y \<and> y < 90000000
           \<and> toString (num (10000000 + \<lfloor>y\<rfloor>)) = Some (digits (nat (10000000 + \<lfloor>y\<rfloor>)))
           \<and> length (digits (nat (10000000 + \<lfloor>y\<rfloor>))) = 8
           \<and> generateAccountNumber r = Some (parseInt (''21'' @ digits (nat (10000000 + \<lfloor>y\<rfloor>))))
           \<and> generateAccountNumber r = Some (num (2110000000 + \<lfloor>y\<rfloor>))
           \<and> 2110000000 \<le> 2110000000 + \<lfloor>y\<rfloor> \<and> 2110000000 + \<lfloor>y\<rfloor> \<le> 2199999999"
proof -
  from random_scaled [OF assms] obtain y
    where y: "binary64 (r * 90000000) = Finite y" "0 \<le> y" "y < 90000000"
    by blast
  define f where "f = \<lfloor>y\<rfloor>"
  have f: "0 \<le> f" "f \<le> 89999999"
    using y(2,3) unfolding f_def by (simp, linarith)
  define n where "n = nat (10000000 + f)"
  have n: "int n = 10000000 + f" "10 ^ 7 \<le> n" "n < 10 ^ Suc 7"
    using f by (simp_all add: n_def)
  have "\<bar>f + 10000000\<bar> < 2 ^ 53" using f by simp
  from binary64_of_int [OF this]
  have sum: "js_add (js_floor (binary64 (r * 90000000))) (Finite 10000000) = num (10000000 + f)"
    by (simp add: y(1) f_def [symmetric] num_def add.commute)
  have ts: "toString (num (10000000 + f)) = Some (digits n)"
    using f by (simp add: num_def toString_int_def n_def)
  have len: "length (digits n) = 8"
    using length_digits [OF n(2,3)] by simp
  have "\<bar>int (21 * 10 ^ 8 + n)\<bar> < 2 ^ 53" using n(1) f by simp
  from binary64_of_int [OF this]
  have pi: "parseInt (''21'' @ digits n) = num (2110000000 + f)"
    using n(1) by (simp only: parseInt_prefix_digits len num_def) (simp add: algebra_simps)
  have g: "generateAccountNumber r = Some (parseInt (''21'' @ digits n))"
    by (simp only: generateAccountNumber_def Let_def sum ts option.case)
  show ?thesis
    using y ts len g pi f unfolding f_def n_def
    by (intro exI [of _ y]) simp
qed

theorem generateAccountNumber_exact_witness:
  "0 \<le> third \<and> third < 1 \<and> binary64 third = Finite third
   \<and> binary64 (third * 90000000) = Finite 30000000
   \<and> generateAccountNumber third = Some (num 2140000000)"
proof -
  have a: "0 \<le> third" "third < 1" by (simp_all add: third_def)
  from generateAccountNumber_exact [OF a binary64_third] obtain y
    where "binary64 (third * 90000000) = Finite y"
      and "generateAccountNumber third = Some (num (2110000000 + \<lfloor>y\<rfloor>))"
    by blast
  then have "generateAccountNumber third = Some (num 2140000000)"
    by (simp add: binary64_third_scaled)
  with a binary64_third binary64_third_scaled show ?thesis by simp
qed

section \<open>Evaluation on the sample data\<close>

lemmas sample_defs = sample_argon2_def acct_A_def acct_B_def ledger_def empty_ledger_def
  large_ledger_def deposit_request_def transfer_request_def withdraw_request_def
  digest_of_stored_def

lemmas response_defs = status_json_def res_json_def getError_def is_success_def succeeded_def

lemmas repo_defs = find_account_def findByOwnerId_def update_account_def transaction_def

lemmas joi_defs = validateTransfer_def validateWithdrawal_def joi_number_required_def
  joi_integer_required_def joi_string_required_def MAX_SAFE_INTEGER_def num_def

lemma binary64_numeral:
  "numeral k < (2::int) ^ 53 \<Longrightarrow> binary64 (numeral k) = Finite (numeral k)"
  "numeral k < (2::int) ^ 53 \<Longrightarrow> binary64 (- numeral k) = Finite (- numeral k)"
  "binary64 0 = Finite 0"
  "binary64 1 = Finite 1"
  using binary64_of_int [of "numeral k"] binary64_of_int [of "- numeral k"]
    binary64_of_int [of 0] binary64_of_int [of 1]
  by simp_all

lemmas number_simps = binary64_numeral js_sub_def js_le_def

lemma deposit_write_result:
  "deposit_write st req dto =
     (if length (filter (\<lambda>a. owner a = dto_owner dto) (accounts st)) \<noteq> 1
      then (status_json 400 (getError ''Deposit failed''), st)
      else (res_json (JObj [(''success'', JBool True),
                (''details'', JObj [(''balance'', JNum (dto_balance dto)),
                                    (''owner'', JNum (num (dto_owner dto)))])]),
            \<lparr>accounts = snd (update_account (accounts st) dto),
             customCache = cacheResponseIfKeyExists (customCache st) (userId req) (idempotencyKey req)
               (JObj [(''success'', JBool True),
                (''details'', JObj [(''balance'', JNum (dto_balance dto)),
                                    (''owner'', JNum (num (dto_owner dto)))])])\<rparr>))"
  by (simp add: deposit_write_def transaction_def update_account_def Let_def)

lemma withdraw_commit_result:
  "withdraw_commit st req src v =
     (if length (filter (\<lambda>a. owner a = owner src) (accounts st)) \<noteq> 1
      then (Responded (status_json 400 (getError ''Withdrawal failed'')), st)
      else (Responded (res_json (JObj [(''success'', JBool True),
                (''destination'', JNum (num (w_destination v))),
                (''source'', JNum (num (w_source v))), (''amount'', JNum (w_amount v)),
                (''destinationBankName'', JStr (w_destinationBankName v))])),
            \<lparr>accounts = snd (update_account (accounts st)
                 \<lparr>dto_balance = js_sub (balance src) (w_amount v), dto_owner = owner src\<rparr>),
             customCache = cacheResponseIfKeyExists (customCache st) (userId req) (idempotencyKey req)
               (JObj [(''success'', JBool True), (''destination'', JNum (num (w_destination v))),
                (''source'', JNum (num (w_source v))), (''amount'', JNum (w_amount v)),
                (''destinationBankName'', JStr (w_destinationBankName v))])\<rparr>))"
  by (simp add: withdraw_commit_def transaction_def update_account_def Let_def)

lemma cache_key_1: "toString_int 1 = ''1''"
  by code_simp

text \<open>
  C1. The same deposit sent twice with the same idempotency key by the same user: the
  first answer is stored under the key, and the second request is executed again all the
  same. The balance goes from 100 to 110 and then to 120, and the two answers differ.
\<close>

theorem deposit_same_key_twice:
  "(let req = deposit_request 1 (Some ''retry-1'') (Finite 10);
        (r1, st1) = deposit ledger req;
        (r2, st2) = deposit st1 req
    in is_success r1 \<and> is_success r2 \<and> r2 \<noteq> r1
       \<and> customCache st1 ''Bearer 1-retry-1'' = Some (body r1, 21600)
       \<and> map balance (accounts ledger) = [Finite 100, Finite 50]
       \<and> map balance (accounts st1) = [Finite 110, Finite 50]
       \<and> map balance (accounts st2) = [Finite 120, Finite 50])"
  by (simp add: deposit_def deposit_read_def deposit_write_result sample_defs response_defs
      repo_defs number_simps cacheResponseIfKeyExists_def cache_key_1 Let_def)

text \<open>
  C3. A withdrawal of amount -5 from an account of balance 100, with a pin that the
  call of the library accepts (a hash of the stored pin), is answered with success and
  leaves the balance at 105.
\<close>

theorem withdraw_nonpositive_amount_accepted:
  "(let (y, st) = withdraw sample_argon2 ledger
                    (withdraw_request 1 2110000001 (Finite (- 5)) digest_of_stored)
    in js_le (Finite (- 5)) (Finite 0)
       \<and> argon2_verify sample_argon2 digest_of_stored (transaction_pin acct_A) = Some True
       \<and> succeeded y
       \<and> map balance (accounts ledger) = [Finite 100, Finite 50]
       \<and> map balance (accounts st) = [Finite 105, Finite 50])"
  by (simp add: withdraw_def withdraw_checks_def withdraw_commit_result argon2_verify_def
      sample_defs response_defs repo_defs joi_defs number_simps Let_def)

section \<open>The answer of a deposit\<close>

text \<open>
  A deposit of 10 on a balance of 100 by user 1 is not answered with the flat object
  of keys success, balance and owner: balance and owner sit under the key details.
\<close>

theorem deposit_flat_response_counterexample:
  "fst (deposit ledger (deposit_request 1 None (Finite 10)))
     = res_json (JObj [(''success'', JBool True),
          (''details'', JObj [(''balance'', JNum (Finite 110)), (''owner'', JNum (num 1))])])
   \<and> fst (deposit ledger (deposit_request 1 None (Finite 10)))
     \<noteq> res_json (JObj [(''success'', JBool True), (''balance'', JNum (Finite 110)),
                       (''owner'', JNum (num 1))])"
  by (simp add: deposit_def deposit_read_def deposit_write_result sample_defs response_defs
      repo_defs number_simps cacheResponseIfKeyExists_def Let_def)

text \<open>
  C8. A deposit of a positive amount by a user with exactly one account, of balance
  \<open>b\<close>, is answered with status 200 and the object of keys success (true) and details,
  where details holds the owner and the new balance, the sum of \<open>b\<close> and the amount as
  numbers are added; for integers whose magnitudes add up to a safe integer that sum is
  \<open>b + amount\<close> exactly.
\<close>

theorem deposit_response_nested:
  assumes "js_lt (Finite 0) (d_amount (req_body req))"
    and "findByOwnerId (accounts st) (userId req) = Some account"
    and "length (filter (\<lambda>a. owner a = userId req) (accounts st)) = 1"
  shows "fst (deposit st req)
     = res_json (JObj [(''success'', JBool True),
          (''details'', JObj [(''balance'', JNum (js_add (balance account) (d_amount (req_body req)))),
                              (''owner'', JNum (num (userId req)))])])
     \<and> (whole (balance account) \<and> whole (d_amount (req_body req))
        \<and> magnitude (balance account) + magnitude (d_amount (req_body req)) \<le> MAX_SAFE_INTEGER \<longrightarrow>
          js_add (balance account) (d_amount (req_body req))
            = Finite (finite_part (balance account) + finite_part (d_amount (req_body req))))"
  using assms js_add_whole(1) [of "balance account" "d_amount (req_body req)"]
  by (simp add: deposit_def deposit_read_def deposit_write_result js_le_def Let_def)

theorem deposit_response_nested_witness:
  "js_lt (Finite 0) (d_amount (req_body (deposit_request 1 None (Finite 10))))
   \<and> findByOwnerId (accounts ledger) (userId (deposit_request 1 None (Finite 10))) = Some acct_A
   \<and> length (filter (\<lambda>a. owner a = userId (deposit_request 1 None (Finite 10))) (accounts ledger)) = 1
   \<and> fst (deposit ledger (deposit_request 1 None (Finite 10)))
     = res_json (JObj [(''success'', JBool True),
          (''details'', JObj [(''balance'', JNum (Finite 110)), (''owner'', JNum (num 1))])])"
proof -
  have h1: "js_lt (Finite 0) (d_amount (req_body (deposit_request 1 None (Finite 10))))"
    by (simp add: sample_defs)
  have h2: "findByOwnerId (accounts ledger) (userId (deposit_request 1 None (Finite 10))) = Some acct_A"
    by (simp add: sample_defs findByOwnerId_def)
  have h3: "length (filter (\<lambda>a. owner a = userId (deposit_request 1 None (Finite 10))) (accounts ledger)) = 1"
    by (simp add: sample_defs)
  from deposit_response_nested [OF h1 h2 h3, THEN conjunct1] h1 h2 h3 show ?thesis
    by (simp add: sample_defs number_simps)
qed

section \<open>The order of the checks of a transfer\<close>

text \<open>
  A transfer of amount 0 to an account number that no row has is answered with the
  error of the amount, not with the error of the missing account.
\<close>

theorem transfer_amount_before_existence_counterexample:
  "find_account (accounts ledger) 2110000077 = None
   \<and> fst (transfer sample_argon2 ledger (transfer_request 1 2110000001 2110000077 (Finite 0) ''1234''))
       = Responded (status_json 400 (getError ''Invalid amount''))
   \<and> fst (transfer sample_argon2 ledger (transfer_request 1 2110000001 2110000077 (Finite 0) ''1234''))
       \<noteq> Responded (status_json 404 (getError ''One or both bank accounts do not exist.''))"
  by (simp add: transfer_def transfer_checks_def sample_defs response_defs repo_defs joi_defs
      number_simps Let_def)

text \<open>
  C2. The checks of a transfer, in the order in which the first one that fails decides
  the answer: the schema, source equal to destination, the amount being positive, both
  accounts existing, the caller owning the source, the funds, the pin. A request that
  fails a check leaves the state as it was; one that passes them all goes to the
  transaction. At the check of the pin, the last one, the call of the library either
  throws, and the handler ends with no response of its own, or tells whether the pin is
  valid.
\<close>

theorem transfer_check_order:
  "(\<forall>m. validateTransfer (req_body req) = Inl m \<longrightarrow>
        transfer lib st req = (Responded (status_json 400 (getError m)), st))
   \<and> (\<forall>v. validateTransfer (req_body req) = Inr v \<longrightarrow>
        (if t_source v = t_destination v
         then transfer lib st req
                = (Responded (status_json 400
                     (getError ''Sender and recipient account cannot be the same'')), st)
         else if js_le (t_amount v) (Finite 0)
         then transfer lib st req = (Responded (status_json 400 (getError ''Invalid amount'')), st)
         else if find_account (accounts st) (t_source v) = None
                 \<or> find_account (accounts st) (t_destination v) = None
         then transfer lib st req
                = (Responded (status_json 404 (getError ''One or both bank accounts do not exist.'')), st)
         else (\<forall>sender recipient.
                 find_account (accounts st) (t_source v) = Some sender
                 \<and> find_account (accounts st) (t_destination v) = Some recipient \<longrightarrow>
                 (if owner sender \<noteq> userId req
                  then transfer lib st req
                         = (Responded (status_json 400
                              (getError ''You are not allowed to transfer from this account'')), st)
                  else if js_lt (balance sender) (t_amount v)
                  then transfer lib st req
                         = (Responded (status_json 400
                              (getError ''Insufficient funds in the sender account.'')), st)
                  else if argon2_verify lib (t_transaction_pin v) (transaction_pin sender) = None
                  then transfer lib st req = (Rejected, st)
                  else if argon2_verify lib (t_transaction_pin v) (transaction_pin sender) = Some False
                  then transfer lib st req
                         = (Responded (status_json 400 (getError ''Invalid transaction pin'')), st)
                  else transfer lib st req = transfer_commit st req sender recipient v))))"
  by (auto simp add: transfer_def transfer_checks_def Let_def split: option.splits)

theorem transfer_check_order_witness:
  "validateTransfer (req_body (transfer_request 2 2110000001 2110000077 (Finite 0) ''12''))
      = Inl (joi_message ''transaction_pin'' (string_min 4))
   \<and> transfer sample_argon2 ledger (transfer_request 2 2110000001 2110000077 (Finite 0) ''12'')
      = (Responded (status_json 400 (getError (joi_message ''transaction_pin'' (string_min 4)))), ledger)
   \<and> validateTransfer (req_body (transfer_request 2 2110000001 2110000077 (Finite 0) ''$argon2id$0000''))
      = Inr \<lparr>t_source = 2110000001, t_amount = Finite 0, t_destination = 2110000077,
             t_transaction_pin = ''$argon2id$0000''\<rparr>
   \<and> transfer sample_argon2 ledger (transfer_request 2 2110000001 2110000077 (Finite 0) ''$argon2id$0000'')
      = (Responded (status_json 400 (getError ''Invalid amount'')), ledger)
   \<and> validateTransfer (req_body (transfer_request 1 2110000001 2110000002 (Finite 30) ''$argon2id$0000''))
      = Inr \<lparr>t_source = 2110000001, t_amount = Finite 30, t_destination = 2110000002,
             t_transaction_pin = ''$argon2id$0000''\<rparr>
   \<and> find_account (accounts ledger) 2110000001 = Some acct_A
   \<and> find_account (accounts ledger) 2110000002 = Some acct_B
   \<and> transfer sample_argon2 ledger (transfer_request 1 2110000001 2110000002 (Finite 30) ''$argon2id$0000'')
      = (Responded (status_json 400 (getError ''Invalid transaction pin'')), ledger)"
proof -
  have v1: "validateTransfer (req_body (transfer_request 2 2110000001 2110000077 (Finite 0) ''12''))
      = Inl (joi_message ''transaction_pin'' (string_min 4))"
    by (simp add: transfer_request_def joi_defs)
  have v2: "validateTransfer (req_body (transfer_request 2 2110000001 2110000077 (Finite 0) ''$argon2id$0000''))
      = Inr \<lparr>t_source = 2110000001, t_amount = Finite 0, t_destination = 2110000077,
             t_transaction_pin = ''$argon2id$0000''\<rparr>"
    by (simp add: transfer_request_def joi_defs)
  have v3: "validateTransfer (req_body (transfer_request 1 2110000001 2110000002 (Finite 30) ''$argon2id$0000''))
      = Inr \<lparr>t_source = 2110000001, t_amount = Finite 30, t_destination = 2110000002,
             t_transaction_pin = ''$argon2id$0000''\<rparr>"
    by (simp add: transfer_request_def joi_defs)
  have f: "find_account (accounts ledger) 2110000001 = Some acct_A"
     "find_account (accounts ledger) 2110000002 = Some acct_B"
    by (simp_all add: sample_defs find_account_def)
  have r1: "transfer sample_argon2 ledger (transfer_request 2 2110000001 2110000077 (Finite 0) ''12'')
      = (Responded (status_json 400 (getError (joi_message ''transaction_pin'' (string_min 4)))), ledger)"
    using transfer_check_order [THEN conjunct1, rule_format, OF v1] .
  have r2: "transfer sample_argon2 ledger (transfer_request 2 2110000001 2110000077 (Finite 0) ''$argon2id$0000'')
      = (Responded (status_json 400 (getError ''Invalid amount'')), ledger)"
    using transfer_check_order [THEN conjunct2, rule_format, OF v2, of sample_argon2 ledger]
    by (simp add: js_le_def)
  have r3: "transfer sample_argon2 ledger (transfer_request 1 2110000001 2110000002 (Finite 30) ''$argon2id$0000'')
      = (Responded (status_json 400 (getError ''Invalid transaction pin'')), ledger)"
    using transfer_check_order [THEN conjunct2, rule_format, OF v3, of sample_argon2 ledger] f
    by (simp add: acct_A_def acct_B_def sample_argon2_def argon2_verify_def transfer_request_def
        js_le_def)
  from v1 v2 v3 f r1 r2 r3 show ?thesis by (simp only: simp_thms)
qed

section \<open>The pin of a transfer\<close>

text \<open>
  C4. A transfer by the owner of the first account, of 30 out of a balance of 100, to
  the second account. The pin stored with the account is the hash of 1234: the library,
  called with the stored hash first, accepts 1234 and refuses 4321. The handler calls it
  with the pin of the request first: with the pin 1234 and with the pin 4321 alike the
  call throws, the handler ends with no response of its own, and the state is unchanged.
\<close>

theorem transfer_plain_pin_throws:
  "argon2_verify sample_argon2 (transaction_pin acct_A) ''1234'' = Some True
   \<and> argon2_verify sample_argon2 (transaction_pin acct_A) ''4321'' = Some False
   \<and> argon2_verify sample_argon2 ''1234'' (transaction_pin acct_A) = None
   \<and> argon2_verify sample_argon2 ''4321'' (transaction_pin acct_A) = None
   \<and> transfer sample_argon2 ledger (transfer_request 1 2110000001 2110000002 (Finite 30) ''1234'')
       = (Rejected, ledger)
   \<and> transfer sample_argon2 ledger (transfer_request 1 2110000001 2110000002 (Finite 30) ''4321'')
       = (Rejected, ledger)"
  by (simp add: transfer_def transfer_checks_def argon2_verify_def sample_defs response_defs
      repo_defs joi_defs number_simps Let_def)

section \<open>The caller of a withdrawal\<close>



section \<open>The transactions\<close>

lemma count_owner_update:
  "length (filter (\<lambda>a. owner a = u) (snd (update_account tbl dto)))
     = length (filter (\<lambda>a. owner a = u) tbl)"
  by (induction tbl) (auto simp add: update_account_def)

lemma transfer_commit_result:
  "transfer_commit st req sender recipient v =
     (if length (filter (\<lambda>a. owner a = owner sender) (accounts st)) \<noteq> 1
         \<or> length (filter (\<lambda>a. owner a = owner recipient) (accounts st)) \<noteq> 1
      then (Responded (status_json 400 (getError ''Deposit failed'')), st)
      else (Responded (res_json (JObj [(''success'', JBool True),
                (''destination'', JNum (num (t_destination v))),
                (''source'', JNum (num (t_source v))), (''amount'', JNum (t_amount v))])),
            \<lparr>accounts = snd (update_account
                 (snd (update_account (accounts st)
                    \<lparr>dto_balance = js_sub (balance sender) (t_amount v), dto_owner = owner sender\<rparr>))
                 \<lparr>dto_balance = js_add (balance recipient) (t_amount v), dto_owner = owner recipient\<rparr>),
             customCache = cacheResponseIfKeyExists (customCache st) (userId req) (idempotencyKey req)
               (JObj [(''success'', JBool True), (''destination'', JNum (num (t_destination v))),
                (''source'', JNum (num (t_source v))), (''amount'', JNum (t_amount v))])\<rparr>))"
proof -
  let ?s = "\<lparr>dto_balance = js_sub (balance sender) (t_amount v), dto_owner = owner sender\<rparr>"
  let ?r = "\<lparr>dto_balance = js_add (balance recipient) (t_amount v), dto_owner = owner recipient\<rparr>"
  have c: "fst (update_account (snd (update_account (accounts st) ?s)) ?r)
      = length (filter (\<lambda>a. owner a = owner recipient) (accounts st))"
    using count_owner_update [of "owner recipient" "accounts st" ?s]
    by (simp add: update_account_def)
  have s: "fst (update_account (accounts st) ?s)
      = length (filter (\<lambda>a. owner a = owner sender) (accounts st))"
    by (simp add: update_account_def)
  show ?thesis
    using c s
    by (simp add: transfer_commit_def transaction_def Let_def split_beta)
qed

lemma transfer_failure_keeps_state:
  "\<not> succeeded (fst (transfer lib st req)) \<Longrightarrow> snd (transfer lib st req) = st"
  by (auto simp add: transfer_def transfer_commit_result response_defs
      split: sum.splits prod.splits)

text \<open>
  C5. The transaction of a transfer, on any table: when exactly one row has the owner
  of the source account and exactly one the owner of the destination account, the answer
  is success and the committed table has both balances changed, the source to its
  balance less the amount and the destination to its balance plus the amount (70 and 80
  for 100, 50 and 30); when either update matches another number of rows (no row of the
  destination's owner, say), the answer is the failure of the transaction and the state
  is the one before it, the source balance included. A transfer that is not answered
  with success leaves the state it found.
\<close>

theorem transfer_atomic:
  "(length (filter (\<lambda>a. owner a = owner sender) (accounts st)) = 1
      \<and> length (filter (\<lambda>a. owner a = owner recipient) (accounts st)) = 1 \<longrightarrow>
        succeeded (fst (transfer_commit st req sender recipient v))
        \<and> accounts (snd (transfer_commit st req sender recipient v))
            = map (\<lambda>a. if owner a = owner recipient
                        then a\<lparr>balance := js_add (balance recipient) (t_amount v)\<rparr>
                        else if owner a = owner sender
                        then a\<lparr>balance := js_sub (balance sender) (t_amount v)\<rparr>
                        else a) (accounts st))
   \<and> (length (filter (\<lambda>a. owner a = owner recipient) (accounts st)) \<noteq> 1
      \<or> length (filter (\<lambda>a. owner a = owner sender) (accounts st)) \<noteq> 1 \<longrightarrow>
        transfer_commit st req sender recipient v
          = (Responded (status_json 400 (getError ''Deposit failed'')), st))
   \<and> (\<not> succeeded (fst (transfer lib st req)) \<longrightarrow> snd (transfer lib st req) = st)"
  by (auto simp add: transfer_commit_result transfer_failure_keeps_state response_defs
      update_account_def)

theorem transfer_atomic_witness:
  "map balance (accounts ledger) = [Finite 100, Finite 50]
   \<and> transfer sample_argon2 ledger (transfer_request 1 2110000001 2110000002 (Finite 30) digest_of_stored)
       = transfer_commit ledger (transfer_request 1 2110000001 2110000002 (Finite 30) digest_of_stored)
           acct_A acct_B
           \<lparr>t_source = 2110000001, t_amount = Finite 30, t_destination = 2110000002,
            t_transaction_pin = digest_of_stored\<rparr>
   \<and> succeeded (fst (transfer sample_argon2 ledger
         (transfer_request 1 2110000001 2110000002 (Finite 30) digest_of_stored)))
   \<and> map balance (accounts (snd (transfer sample_argon2 ledger
         (transfer_request 1 2110000001 2110000002 (Finite 30) digest_of_stored))))
       = [Finite 70, Finite 80]
   \<and> length (filter (\<lambda>a. owner a = owner acct_B) (accounts (ledger\<lparr>accounts := [acct_A]\<rparr>))) = 0
   \<and> transfer_commit (ledger\<lparr>accounts := [acct_A]\<rparr>)
         (transfer_request 1 2110000001 2110000002 (Finite 30) digest_of_stored) acct_A acct_B
           \<lparr>t_source = 2110000001, t_amount = Finite 30, t_destination = 2110000002,
            t_transaction_pin = digest_of_stored\<rparr>
       = (Responded (status_json 400 (getError ''Deposit failed'')), ledger\<lparr>accounts := [acct_A]\<rparr>)
   \<and> balance acct_A = Finite 100"
proof -
  let ?req = "transfer_request 1 2110000001 2110000002 (Finite 30) digest_of_stored"
  let ?v = "\<lparr>t_source = 2110000001, t_amount = Finite 30, t_destination = 2110000002,
            t_transaction_pin = digest_of_stored\<rparr>"
  have t: "transfer sample_argon2 ledger ?req = transfer_commit ledger ?req acct_A acct_B ?v"
    by (simp add: transfer_def transfer_checks_def argon2_verify_def sample_defs find_account_def
        joi_defs js_le_def)
  have n: "length (filter (\<lambda>a. owner a = owner acct_A) (accounts ledger)) = 1"
    "length (filter (\<lambda>a. owner a = owner acct_B) (accounts ledger)) = 1"
    by (simp_all add: sample_defs)
  have m: "length (filter (\<lambda>a. owner a = owner acct_B) (accounts (ledger\<lparr>accounts := [acct_A]\<rparr>))) = 0"
    by (simp add: sample_defs)
  note a = transfer_atomic [where sender = acct_A and recipient = acct_B and req = ?req and v = ?v]
  have ok: "succeeded (fst (transfer_commit ledger ?req acct_A acct_B ?v))
     \<and> map balance (accounts (snd (transfer_commit ledger ?req acct_A acct_B ?v)))
         = [Finite 70, Finite 80]"
    using a [where st = ledger, THEN conjunct1] n
    by (simp add: acct_A_def acct_B_def ledger_def number_simps)
  have rb: "transfer_commit (ledger\<lparr>accounts := [acct_A]\<rparr>) ?req acct_A acct_B ?v
       = (Responded (status_json 400 (getError ''Deposit failed'')), ledger\<lparr>accounts := [acct_A]\<rparr>)"
    using a [where st = "ledger\<lparr>accounts := [acct_A]\<rparr>", THEN conjunct2, THEN conjunct1] m by simp
  have b: "map balance (accounts ledger) = [Finite 100, Finite 50]" "balance acct_A = Finite 100"
    by (simp_all add: sample_defs)
  from t ok rb m b show ?thesis by (simp only: simp_thms)
qed

text \<open>
  Two deposits of 10 by the owner of an account of balance 0: the first request reads
  the account, the second request runs from its read to its commit, and then the first
  one writes. The check of the first one passes and the balance ends at 10.
\<close>

theorem deposit_lost_update_counterexample:
  "map balance (accounts empty_ledger) = [Finite 0]
   \<and> deposit_read (accounts empty_ledger) (deposit_request 1 None (Finite 10))
       = Inr \<lparr>dto_balance = Finite 10, dto_owner = 1\<rparr>
   \<and> is_success (fst (deposit empty_ledger (deposit_request 1 None (Finite 10))))
   \<and> map balance (accounts (snd (deposit empty_ledger (deposit_request 1 None (Finite 10)))))
       = [Finite 10]
   \<and> is_success (fst (deposit_write (snd (deposit empty_ledger (deposit_request 1 None (Finite 10))))
         (deposit_request 1 None (Finite 10)) \<lparr>dto_balance = Finite 10, dto_owner = 1\<rparr>))
   \<and> map balance (accounts (snd (deposit_write
         (snd (deposit empty_ledger (deposit_request 1 None (Finite 10))))
         (deposit_request 1 None (Finite 10)) \<lparr>dto_balance = Finite 10, dto_owner = 1\<rparr>)))
       = [Finite 10]"
  by (simp add: deposit_def deposit_read_def deposit_write_result sample_defs response_defs
      repo_defs number_simps cacheResponseIfKeyExists_def Let_def)

text \<open>
  C6. The check on the number of rows of a deposit looks at the owner only: on any
  table in which exactly one row has the owner of the update, whatever its balance has
  become since the request read it, the write is answered with success and sets the
  balance to the one computed from that read; the write fails, and leaves the state as
  it was, exactly when the number of rows of that owner is not one.
\<close>

theorem deposit_write_overwrites:
  "(length (filter (\<lambda>a. owner a = dto_owner dto) (accounts st)) = 1 \<longrightarrow>
      is_success (fst (deposit_write st req dto))
      \<and> accounts (snd (deposit_write st req dto))
          = map (\<lambda>a. if owner a = dto_owner dto then a\<lparr>balance := dto_balance dto\<rparr> else a) (accounts st))
   \<and> (length (filter (\<lambda>a. owner a = dto_owner dto) (accounts st)) \<noteq> 1 \<longrightarrow>
      deposit_write st req dto = (status_json 400 (getError ''Deposit failed''), st))"
  by (simp add: deposit_write_result response_defs update_account_def)

theorem deposit_write_overwrites_witness:
  "deposit_read (accounts empty_ledger) (deposit_request 1 None (Finite 10))
       = Inr \<lparr>dto_balance = Finite 10, dto_owner = 1\<rparr>
   \<and> map balance (accounts (snd (deposit empty_ledger (deposit_request 1 None (Finite 10)))))
       = [Finite 10]
   \<and> length (filter (\<lambda>a. owner a = dto_owner \<lparr>dto_balance = Finite 10, dto_owner = 1\<rparr>)
        (accounts (snd (deposit empty_ledger (deposit_request 1 None (Finite 10)))))) = 1
   \<and> is_success (fst (deposit_write (snd (deposit empty_ledger (deposit_request 1 None (Finite 10))))
         (deposit_request 1 None (Finite 10)) \<lparr>dto_balance = Finite 10, dto_owner = 1\<rparr>))
   \<and> map balance (accounts (snd (deposit_write
         (snd (deposit empty_ledger (deposit_request 1 None (Finite 10))))
         (deposit_request 1 None (Finite 10)) \<lparr>dto_balance = Finite 10, dto_owner = 1\<rparr>)))
       = [Finite 10]"
proof -
  let ?req = "deposit_request 1 None (Finite 10)"
  let ?dto = "\<lparr>dto_balance = Finite 10, dto_owner = 1\<rparr>"
  have r: "deposit_read (accounts empty_ledger) ?req = Inr ?dto"
    by (simp add: deposit_read_def sample_defs findByOwnerId_def number_simps)
  have s: "accounts (snd (deposit empty_ledger ?req)) = [acct_A\<lparr>balance := Finite 10\<rparr>]"
    by (simp add: deposit_def deposit_read_def findByOwnerId_def deposit_write_result sample_defs
        update_account_def number_simps)
  have n: "length (filter (\<lambda>a. owner a = dto_owner ?dto) (accounts (snd (deposit empty_ledger ?req)))) = 1"
    by (simp add: s acct_A_def)
  from deposit_write_overwrites [where st = "snd (deposit empty_ledger ?req)" and req = ?req
      and dto = ?dto, THEN conjunct1, rule_format, OF n]
  have w: "is_success (fst (deposit_write (snd (deposit empty_ledger ?req)) ?req ?dto))
     \<and> map balance (accounts (snd (deposit_write (snd (deposit empty_ledger ?req)) ?req ?dto)))
         = [Finite 10]"
    by (simp add: s acct_A_def)
  have b: "map balance (accounts (snd (deposit empty_ledger ?req))) = [Finite 10]"
    by (simp add: s)
  from r b n w show ?thesis by (simp only: simp_thms)
qed

section \<open>Balances along a run\<close>
















































end
